theory Spec2Isabelle
  imports Main "HOL-Library.Word"
begin

section \<open>The opennexus launcher: a shallow embedding\<close>

text \<open>
  The launcher (\<^verbatim>\<open>wrappers/python/opennexus/src/opennexus/__init__.py\<close>) looks for an
  installed \<^verbatim>\<open>opennexus\<close> binary, and otherwise downloads one into a per-version cache
  directory; it then replaces the process with that binary. Every function of the module
  reads or changes the outside world: the argument vector, the environment, the host
  platform, the file system and the network. The model makes that world a record, passed
  to every function and returned updated by the functions that change it. Exceptions are
  values of the type \<open>error\<close>; a function that may raise returns \<open>error + 'a\<close>, and one that
  also changes the world returns the world it leaves behind together with its result.
\<close>

subsection \<open>Strings\<close>

text \<open>
  \<^verbatim>\<open>str.lower\<close> on the ASCII letters: a letter of \<open>A\<close>..\<open>Z\<close> becomes the letter at
  the same place in \<open>a\<close>..\<open>z\<close>. A \<open>char\<close> is a byte, and every other byte is left alone.
\<close>

definition lower_char :: "char \<Rightarrow> char" where
  "lower_char c =
     (case map_of (zip ''ABCDEFGHIJKLMNOPQRSTUVWXYZ'' ''abcdefghijklmnopqrstuvwxyz'') c of
        Some l \<Rightarrow> l
      | None \<Rightarrow> c)"

definition lower :: "string \<Rightarrow> string" where
  "lower s = map lower_char s"

text \<open>\<^verbatim>\<open>s.endswith(suffix)\<close>.\<close>

definition endswith :: "string \<Rightarrow> string \<Rightarrow> bool" where
  "endswith s suffix = (take (length suffix) (rev s) = rev suffix)"

text \<open>The decimal text of an integer, as an f-string prints it.\<close>

fun str_nat :: "nat \<Rightarrow> string" where
  "str_nat n =
     (if n < 10 then [''0123456789'' ! n]
      else str_nat (n div 10) @ [''0123456789'' ! (n mod 10)])"

declare str_nat.simps [simp del]

definition str_int :: "int \<Rightarrow> string" where
  "str_int i = (if i < 0 then CHR ''-'' # str_nat (nat (- i)) else str_nat (nat i))"

subsection \<open>Paths\<close>

text \<open>
  A \<^verbatim>\<open>pathlib\<close> path in the POSIX flavour: whether it is rooted, and its parts without
  the root. \<open>Path s\<close> parses a string as \<^verbatim>\<open>Path(s)\<close> does: it splits at \<open>/\<close> and drops
  empty and \<open>.\<close> components, and keeps \<open>..\<close>. \<open>truediv p s\<close> is \<^verbatim>\<open>p / s\<close>: a rooted
  segment replaces the path, any other segment is appended. Two things are left out: a
  leading \<open>//\<close> is not told apart from \<open>/\<close>, and the drive letters and the backslash
  separator of the Windows flavour are not separated, so that they stay inside a part.
\<close>

datatype path = MkPath (is_absolute: bool) (parts: "string list")

fun split_on :: "char \<Rightarrow> string \<Rightarrow> string list" where
  "split_on sep [] = [[]]"
| "split_on sep (c # cs) =
     (if c = sep then [] # split_on sep cs
      else (case split_on sep cs of [] \<Rightarrow> [[c]] | x # xs \<Rightarrow> (c # x) # xs))"

definition Path :: "string \<Rightarrow> path" where
  "Path s = MkPath (take 1 s = ''/'')
                   (filter (\<lambda>c. c \<noteq> [] \<and> c \<noteq> ''.'') (split_on CHR ''/'' s))"

definition truediv :: "path \<Rightarrow> string \<Rightarrow> path" where
  "truediv p s =
     (let q = Path s
      in if is_absolute q then q else MkPath (is_absolute p) (parts p @ parts q))"

text \<open>\<^verbatim>\<open>p / a / b / c\<close>, the segments joined from the left.\<close>

definition joinpath :: "path \<Rightarrow> string list \<Rightarrow> path" where
  "joinpath p segments = foldl truediv p segments"

text \<open>\<^verbatim>\<open>p.parent\<close>: the path without its last part; a path with no part is its own parent.\<close>

definition parent :: "path \<Rightarrow> path" where
  "parent p = MkPath (is_absolute p) (butlast (parts p))"

subsection \<open>Errors\<close>

datatype os_error =
  FileExistsError | FileNotFoundError | NotADirectoryError | IsADirectoryError
| PermissionError

text \<open>
  The exceptions that leave a function of the module. \<open>RuntimeError\<close> carries its
  message. \<open>HTTPError\<close> and \<open>URLError\<close> are the exceptions that \<^verbatim>\<open>urlopen\<close> itself
  raises; \<open>IndexError\<close> is \<^verbatim>\<open>sys.argv[0]\<close> on an empty argument vector.
\<close>

datatype error =
  RuntimeError string
| IndexError
| OSError os_error
| HTTPError string int
| URLError string

subsection \<open>The world\<close>

type_synonym bytes = "8 word list"

text \<open>A file has its contents and its permission bits; the mode of a directory is not kept.\<close>

datatype node = File (content: bytes) (mode: nat) | Dir

datatype syscall = Mkdir | Write | Chmod

text \<open>What \<^verbatim>\<open>urlopen(url)\<close> does: it raises, or it gives a response with a status and a body.\<close>

datatype reply = Raises error | Response (status: int) (body: bytes)

text \<open>
  What \<^verbatim>\<open>p.resolve()\<close> does: it gives the canonical path, or it raises. The exception
  is an \<^verbatim>\<open>OSError\<close>, or another one: up to CPython 3.12 a symbolic-link loop is a
  \<^verbatim>\<open>RuntimeError\<close>.
\<close>

datatype resolved = Resolved path | ResolveRaises error

text \<open>
  \<^item> \<open>argv\<close>, \<open>environ\<close>, \<open>os_name\<close>, \<open>platform_system\<close>, \<open>platform_machine\<close>:
    \<^verbatim>\<open>sys.argv\<close>, \<^verbatim>\<open>os.environ\<close>, \<^verbatim>\<open>os.name\<close>, \<^verbatim>\<open>platform.system()\<close>,
    \<^verbatim>\<open>platform.machine()\<close>;
  \<^item> \<open>metadata_version\<close>: \<^verbatim>\<open>importlib.metadata.version("opennexus")\<close>, \<open>None\<close> when it
    raises \<^verbatim>\<open>PackageNotFoundError\<close>;
  \<^item> \<open>home\<close>: \<^verbatim>\<open>Path.home()\<close>, taken to succeed; \<open>which\<close>: \<^verbatim>\<open>shutil.which\<close>;
  \<^item> \<open>resolve\<close>: \<^verbatim>\<open>Path.resolve()\<close>, the canonical path of a path or the exception
    raised;
  \<^item> \<open>fs\<close>: the file system, a map from paths to nodes;
  \<^item> \<open>stat_error\<close>: the error with which the operating system refuses to look at a
    path, when it is one that \<^verbatim>\<open>Path.exists()\<close> and \<^verbatim>\<open>Path.is_file()\<close> raise again
    (up to CPython 3.13 every error but a missing file, a file in place of a directory, a
    bad descriptor and a link loop; \<^verbatim>\<open>EACCES\<close> under an unreadable directory is the
    common one);
  \<^item> \<open>x_ok\<close>: the execute-permission check of \<^verbatim>\<open>os.access(p, os.X_OK)\<close> on an
    existing node; \<open>denied\<close>: the system calls the operating system refuses;
  \<^item> \<open>new_file_mode\<close>: the permission bits a newly created file gets;
  \<^item> \<open>urlopen\<close>: the network; \<open>requests\<close>: the URLs fetched so far, in order;
  \<^item> \<open>stderr\<close>: the lines printed to the diagnostic stream so far.

  The launcher calls \<open>which\<close> and \<open>resolve\<close> only before it changes the file system, so
  they are fields of their own and do not follow \<open>fs\<close>. A response is taken when its
  body has arrived whole: \<^verbatim>\<open>response.read()\<close> does not fail.
\<close>

record world =
  argv :: "string list"
  environ :: "string \<rightharpoonup> string"
  os_name :: string
  platform_system :: string
  platform_machine :: string
  metadata_version :: "string option"
  home :: path
  which :: "string \<Rightarrow> string option"
  resolve :: "path \<Rightarrow> resolved"
  fs :: "path \<rightharpoonup> node"
  stat_error :: "path \<Rightarrow> os_error option"
  x_ok :: "path \<Rightarrow> node \<Rightarrow> bool"
  denied :: "syscall \<Rightarrow> path \<Rightarrow> bool"
  new_file_mode :: nat
  urlopen :: "string \<Rightarrow> reply"
  requests :: "string list"
  stderr :: "string list"

subsection \<open>File-system operations\<close>

text \<open>A path with no part is the root or the current directory: it is always a directory.\<close>

definition lookup :: "world \<Rightarrow> path \<Rightarrow> node option" where
  "lookup w p = (if parts p = [] then Some Dir else fs w p)"

definition exists :: "world \<Rightarrow> path \<Rightarrow> bool" where
  "exists w p = (lookup w p \<noteq> None)"

definition is_file :: "world \<Rightarrow> path \<Rightarrow> bool" where
  "is_file w p = (case lookup w p of Some (File c m) \<Rightarrow> True | _ \<Rightarrow> False)"

definition is_dir :: "world \<Rightarrow> path \<Rightarrow> bool" where
  "is_dir w p = (lookup w p = Some Dir)"

text \<open>\<^verbatim>\<open>os.access(p, os.X_OK)\<close>: false for a path that does not exist.\<close>

definition os_access_X_OK :: "world \<Rightarrow> path \<Rightarrow> bool" where
  "os_access_X_OK w p = (case lookup w p of None \<Rightarrow> False | Some n \<Rightarrow> x_ok w p n)"

text \<open>
  \<^verbatim>\<open>p.exists()\<close> and \<^verbatim>\<open>p.is_file()\<close> as the locator calls them: an error of
  \<^verbatim>\<open>stat\<close> that \<^verbatim>\<open>pathlib\<close> does not ignore is raised again, and otherwise the
  answer is that of the file system. \<^verbatim>\<open>os.access\<close> never raises.
\<close>

definition Path_exists :: "world \<Rightarrow> path \<Rightarrow> error + bool" where
  "Path_exists w p =
     (case stat_error w p of Some e \<Rightarrow> Inl (OSError e) | None \<Rightarrow> Inr (exists w p))"

definition Path_is_file :: "world \<Rightarrow> path \<Rightarrow> error + bool" where
  "Path_is_file w p =
     (case stat_error w p of Some e \<Rightarrow> Inl (OSError e) | None \<Rightarrow> Inr (is_file w p))"

text \<open>\<^verbatim>\<open>os.mkdir(p)\<close>: one directory, whose parent must be a directory.\<close>

definition os_mkdir :: "world \<Rightarrow> path \<Rightarrow> os_error + world" where
  "os_mkdir w p =
     (if lookup w p \<noteq> None then Inl FileExistsError
      else (case lookup w (parent p) of
              None \<Rightarrow> Inl FileNotFoundError
            | Some (File c m) \<Rightarrow> Inl NotADirectoryError
            | Some Dir \<Rightarrow>
                if denied w Mkdir p then Inl PermissionError
                else Inr (w\<lparr>fs := (fs w)(p \<mapsto> Dir)\<rparr>)))"

text \<open>
  \<^verbatim>\<open>p.mkdir(parents=False, exist_ok=True)\<close>, the last step of \<^verbatim>\<open>pathlib\<close>'s
  \<^verbatim>\<open>mkdir\<close>: a missing parent is raised, any other error is forgiven when the path is a
  directory.
\<close>

definition mkdir_exist_ok :: "world \<Rightarrow> path \<Rightarrow> world \<times> (os_error + unit)" where
  "mkdir_exist_ok w p =
     (case os_mkdir w p of
        Inr w' \<Rightarrow> (w', Inr ())
      | Inl FileNotFoundError \<Rightarrow> (w, Inl FileNotFoundError)
      | Inl e \<Rightarrow> if is_dir w p then (w, Inr ()) else (w, Inl e))"

text \<open>
  \<^verbatim>\<open>p.mkdir(parents=True, exist_ok=True)\<close>, as \<^verbatim>\<open>pathlib\<close> does it: try the directory;
  when its parent is missing, make the parent the same way and try again. Directories
  made before a failure stay.
\<close>

function mkdir_parents :: "world \<Rightarrow> path \<Rightarrow> world \<times> (os_error + unit)" where
  "mkdir_parents w p =
     (case os_mkdir w p of
        Inr w' \<Rightarrow> (w', Inr ())
      | Inl FileNotFoundError \<Rightarrow>
          if parent p = p then (w, Inl FileNotFoundError)
          else (case mkdir_parents w (parent p) of
                  (w1, Inl e) \<Rightarrow> (w1, Inl e)
                | (w1, Inr u) \<Rightarrow> mkdir_exist_ok w1 p)
      | Inl e \<Rightarrow> if is_dir w p then (w, Inr ()) else (w, Inl e))"
  by pat_completeness auto
termination
proof (relation "measure (\<lambda>(w, p). length (parts p))")
  show "wf (measure (\<lambda>(w, p). length (parts p)))" by simp
next
  fix w :: world and p :: path and x :: os_error
  assume "parent p \<noteq> p"
  then have "parts p \<noteq> []"
    by (cases p) (auto simp: parent_def)
  then show "((w, parent p), (w, p)) \<in> measure (\<lambda>(w, p). length (parts p))"
    by (simp add: parent_def)
qed

declare mkdir_parents.simps [simp del]

text \<open>\<^verbatim>\<open>p.write_bytes(data)\<close>: the file is created or truncated, and holds \<open>data\<close>.\<close>

definition write_bytes :: "world \<Rightarrow> path \<Rightarrow> bytes \<Rightarrow> os_error + world" where
  "write_bytes w p data =
     (case lookup w p of
        Some Dir \<Rightarrow> Inl IsADirectoryError
      | Some (File c m) \<Rightarrow>
          if denied w Write p then Inl PermissionError
          else Inr (w\<lparr>fs := (fs w)(p \<mapsto> File data m)\<rparr>)
      | None \<Rightarrow>
          (case lookup w (parent p) of
             None \<Rightarrow> Inl FileNotFoundError
           | Some (File c m) \<Rightarrow> Inl NotADirectoryError
           | Some Dir \<Rightarrow>
               if denied w Write p then Inl PermissionError
               else Inr (w\<lparr>fs := (fs w)(p \<mapsto> File data (new_file_mode w))\<rparr>)))"

text \<open>\<^verbatim>\<open>p.chmod(m)\<close>.\<close>

definition chmod :: "world \<Rightarrow> path \<Rightarrow> nat \<Rightarrow> os_error + world" where
  "chmod w p m =
     (case lookup w p of
        None \<Rightarrow> Inl FileNotFoundError
      | Some n \<Rightarrow>
          if denied w Chmod p then Inl PermissionError
          else (case n of
                  File c m0 \<Rightarrow> Inr (w\<lparr>fs := (fs w)(p \<mapsto> File c m)\<rparr>)
                | Dir \<Rightarrow> Inr w))"

subsection \<open>Module constants\<close>

text \<open>
  \<^verbatim>\<open>VERSION\<close> is the installed package's version, \<^verbatim>\<open>"0.1.5"\<close> when the package
  metadata is missing. \<^verbatim>\<open>RELEASE_BASE_URL\<close> is \<^verbatim>\<open>os.environ.get\<close> of
  \<^verbatim>\<open>OPENNEXUS_RELEASE_BASE_URL\<close> with the release URL of that version as the default.
\<close>

definition VERSION :: "world \<Rightarrow> string" where
  "VERSION w = (case metadata_version w of Some v \<Rightarrow> v | None \<Rightarrow> ''0.1.5'')"

definition default_release_url :: "string \<Rightarrow> string" where
  "default_release_url v =
     ''https://github.com/Alpha-Innovation-Labs/opennexus/releases/download/v'' @ v"

definition RELEASE_BASE_URL :: "world \<Rightarrow> string" where
  "RELEASE_BASE_URL w =
     (case environ w ''OPENNEXUS_RELEASE_BASE_URL'' of
        Some u \<Rightarrow> u
      | None \<Rightarrow> default_release_url (VERSION w))"

subsection \<open>\<^verbatim>\<open>_same_file\<close> and \<^verbatim>\<open>_find_installed_binary\<close>\<close>

text \<open>
  \<^verbatim>\<open>first.resolve() == second.resolve()\<close> inside \<^verbatim>\<open>try\<close>: the first path is resolved,
  then the second. An \<^verbatim>\<open>OSError\<close> of either makes the answer \<^verbatim>\<open>False\<close>; any other
  exception is not caught and leaves the function.
\<close>

definition same_file :: "world \<Rightarrow> path \<Rightarrow> path \<Rightarrow> error + bool" where
  "same_file w first second =
     (case resolve w first of
        ResolveRaises (OSError e) \<Rightarrow> Inr False
      | ResolveRaises e \<Rightarrow> Inl e
      | Resolved a \<Rightarrow>
          (case resolve w second of
             ResolveRaises (OSError e) \<Rightarrow> Inr False
           | ResolveRaises e \<Rightarrow> Inl e
           | Resolved b \<Rightarrow> Inr (a = b)))"

definition cargo_binary :: "world \<Rightarrow> path" where
  "cargo_binary w = joinpath (home w) [''.cargo'', ''bin'', ''opennexus'']"

text \<open>
  Lines 40 to 48 of \<^verbatim>\<open>_find_installed_binary\<close>, the search of the command path:
  \<^verbatim>\<open>if not located\<close> holds for \<^verbatim>\<open>None\<close> and for the empty string.
\<close>

definition locate_on_path :: "world \<Rightarrow> path \<Rightarrow> error + path option" where
  "locate_on_path w script_path =
     (case which w ''opennexus'' of
        None \<Rightarrow> Inr None
      | Some located \<Rightarrow>
          if located = [] then Inr None
          else (case same_file w (Path located) script_path of
                  Inl e \<Rightarrow> Inl e
                | Inr same \<Rightarrow> if same then Inr None else Inr (Some (Path located))))"

text \<open>
  \<^verbatim>\<open>_find_installed_binary\<close>. \<^verbatim>\<open>sys.argv[0]\<close> raises \<^verbatim>\<open>IndexError\<close> on an empty
  argument vector. The three tests of the cargo binary are evaluated from the left, and
  the next one only when the one before holds; \<^verbatim>\<open>exists\<close> and \<^verbatim>\<open>is_file\<close> may
  raise. When the tests hold and the cargo binary is not the same file as the script, it is
  returned; in every other case that does not raise, the command path is searched.
\<close>

definition find_installed_binary :: "world \<Rightarrow> error + path option" where
  "find_installed_binary w =
     (case argv w of
        [] \<Rightarrow> Inl IndexError
      | a0 # rest \<Rightarrow>
          let script_path = Path a0 in
          (case Path_exists w (cargo_binary w) of
             Inl e \<Rightarrow> Inl e
           | Inr ex \<Rightarrow>
               if \<not> ex then locate_on_path w script_path
               else
                 (case Path_is_file w (cargo_binary w) of
                    Inl e \<Rightarrow> Inl e
                  | Inr isf \<Rightarrow>
                      if \<not> (isf \<and> os_access_X_OK w (cargo_binary w))
                      then locate_on_path w script_path
                      else
                        (case same_file w (cargo_binary w) script_path of
                           Inl e \<Rightarrow> Inl e
                         | Inr same \<Rightarrow>
                             if \<not> same then Inr (Some (cargo_binary w))
                             else locate_on_path w script_path))))"

subsection \<open>\<^verbatim>\<open>_resolve_target\<close>\<close>

definition targets :: "(string \<times> string) \<rightharpoonup> (string \<times> string)" where
  "targets = map_of
     [((''darwin'', ''arm64''), (''aarch64-apple-darwin'', ''opennexus'')),
      ((''darwin'', ''x86_64''), (''x86_64-apple-darwin'', ''opennexus'')),
      ((''linux'', ''x86_64''), (''x86_64-unknown-linux-gnu'', ''opennexus'')),
      ((''linux'', ''aarch64''), (''aarch64-unknown-linux-gnu'', ''opennexus'')),
      ((''windows'', ''amd64''), (''x86_64-pc-windows-msvc'', ''opennexus.exe''))]"

definition unsupported_platform :: "string \<Rightarrow> string \<Rightarrow> error" where
  "unsupported_platform system machine =
     RuntimeError (''Unsupported platform: '' @ system @ ''/'' @ machine)"

text \<open>The key of the lookup: the host system and machine names, lower-cased.\<close>

definition platform_key :: "world \<Rightarrow> string \<times> string" where
  "platform_key w = (lower (platform_system w), lower (platform_machine w))"

definition resolve_target :: "world \<Rightarrow> error + (string \<times> string)" where
  "resolve_target w =
     (case platform_key w of
        (system, machine) \<Rightarrow>
          (case targets (system, machine) of
             None \<Rightarrow> Inl (unsupported_platform system machine)
           | Some target \<Rightarrow> Inr target))"

subsection \<open>\<^verbatim>\<open>_cache_root\<close>\<close>

text \<open>\<^verbatim>\<open>if local:\<close> is false for a variable that is unset and for one that is empty.\<close>

definition cache_root :: "world \<Rightarrow> path" where
  "cache_root w =
     (if os_name w = ''nt'' then
        (case environ w ''LOCALAPPDATA'' of
           Some local \<Rightarrow>
             if local \<noteq> [] then Path local else joinpath (home w) [''AppData'', ''Local'']
         | None \<Rightarrow> joinpath (home w) [''AppData'', ''Local''])
      else
        (case environ w ''XDG_CACHE_HOME'' of
           Some xdg \<Rightarrow> if xdg \<noteq> [] then Path xdg else joinpath (home w) [''.cache'']
         | None \<Rightarrow> joinpath (home w) [''.cache'']))"

subsection \<open>\<^verbatim>\<open>_download\<close>\<close>

definition download_failed :: "int \<Rightarrow> string \<Rightarrow> error" where
  "download_failed st url =
     RuntimeError (''Download failed ('' @ str_int st @ '') for '' @ url)"

text \<open>
  One call of \<^verbatim>\<open>urlopen\<close>, logged in \<open>requests\<close>; then the status check; then the whole
  body is written to the destination.
\<close>

definition download :: "world \<Rightarrow> string \<Rightarrow> path \<Rightarrow> world \<times> (error + unit)" where
  "download w url destination =
     (let w1 = w\<lparr>requests := requests w @ [url]\<rparr>
      in case urlopen w url of
           Raises e \<Rightarrow> (w1, Inl e)
         | Response st data \<Rightarrow>
             if st \<noteq> 200 then (w1, Inl (download_failed st url))
             else (case write_bytes w1 destination data of
                     Inl e \<Rightarrow> (w1, Inl (OSError e))
                   | Inr w2 \<Rightarrow> (w2, Inr ())))"

subsection \<open>\<^verbatim>\<open>_ensure_managed_binary\<close>\<close>

definition mode_755 :: nat where
  "mode_755 = 7 * 64 + 5 * 8 + 5"

definition asset_name :: "string \<Rightarrow> string \<Rightarrow> string" where
  "asset_name target_triple binary_name =
     ''opennexus-'' @ target_triple @ (if endswith binary_name ''.exe'' then ''.exe'' else [])"

definition progress_notice :: "string \<Rightarrow> string \<Rightarrow> string" where
  "progress_notice v target_triple =
     ''`opennexus` binary not found in PATH. Downloading '' @ v @ '' for '' @ target_triple
       @ ''...''"

text \<open>The local variables \<^verbatim>\<open>install_dir\<close>, \<^verbatim>\<open>binary_path\<close> and \<^verbatim>\<open>asset_url\<close>.\<close>

definition install_dir :: "world \<Rightarrow> string \<Rightarrow> path" where
  "install_dir w target_triple =
     joinpath (cache_root w) [''opennexus'', ''bin'', VERSION w, target_triple]"

definition binary_path :: "world \<Rightarrow> string \<times> string \<Rightarrow> path" where
  "binary_path w target = truediv (install_dir w (fst target)) (snd target)"

definition asset_url :: "world \<Rightarrow> string \<times> string \<Rightarrow> string" where
  "asset_url w target = RELEASE_BASE_URL w @ ''/'' @ asset_name (fst target) (snd target)"

text \<open>
  The paths, the URL and the notice are values computed from the constants of the module
  and the environment; the directory creation, the two checks, the download and the
  \<^verbatim>\<open>chmod\<close> act on the file system as the step before left it. The check of line 96
  is taken at its outcome, \<open>exists\<close>: the provisioner is modelled for a cache directory
  that the operating system lets it look at.
\<close>

definition ensure_managed_binary :: "world \<Rightarrow> world \<times> (error + path)" where
  "ensure_managed_binary w =
     (case resolve_target w of
        Inl e \<Rightarrow> (w, Inl e)
      | Inr target \<Rightarrow>
          (case mkdir_parents w (install_dir w (fst target)) of
             (w1, Inl e) \<Rightarrow> (w1, Inl (OSError e))
           | (w1, Inr u) \<Rightarrow>
               if exists w1 (binary_path w target) \<and> os_access_X_OK w1 (binary_path w target)
               then (w1, Inr (binary_path w target))
               else
                 let w2 = w1\<lparr>stderr :=
                               stderr w1 @ [progress_notice (VERSION w) (fst target)]\<rparr>
                 in case download w2 (asset_url w target) (binary_path w target) of
                      (w3, Inl e) \<Rightarrow> (w3, Inl e)
                    | (w3, Inr u) \<Rightarrow>
                        if os_name w \<noteq> ''nt'' then
                          (case chmod w3 (binary_path w target) mode_755 of
                             Inl e \<Rightarrow> (w3, Inl (OSError e))
                           | Inr w4 \<Rightarrow> (w4, Inr (binary_path w target)))
                        else (w3, Inr (binary_path w target))))"

subsection \<open>\<^verbatim>\<open>main\<close>\<close>

text \<open>
  \<^verbatim>\<open>os.execv(binary, args)\<close> ends the launcher: the model records the call. \<open>main\<close>
  returns the world it leaves and either the exception that escaped or the call made.
\<close>

datatype exec = Execv (exec_path: path) (exec_args: "string list")

definition main :: "world \<Rightarrow> world \<times> (error + exec)" where
  "main w =
     (let args = ''opennexus'' # drop 1 (argv w)
      in case find_installed_binary w of
           Inl e \<Rightarrow> (w, Inl e)
         | Inr (Some binary) \<Rightarrow> (w, Inr (Execv binary args))
         | Inr None \<Rightarrow>
             (case ensure_managed_binary w of
                (w', Inl e) \<Rightarrow> (w', Inl e)
              | (w', Inr binary) \<Rightarrow> (w', Inr (Execv binary args))))"

subsection \<open>Notions of the specification\<close>

text \<open>
  \<open>BinaryPath\<close> is the specification's path of the cached binary, the subpath
  \<^verbatim>\<open>opennexus/bin/<version>/<target-triple>/<binary-name>\<close> under the cache root: the
  parts of the cache root, followed by \<^verbatim>\<open>opennexus\<close> and \<^verbatim>\<open>bin\<close>, by the version as
  a path reads it (its components between separators), by the target triple and by the
  binary name. It is rooted exactly when the cache root is.
\<close>

definition BinaryPath :: "path \<Rightarrow> string \<Rightarrow> string \<times> string \<Rightarrow> path" where
  "BinaryPath root v target =
     MkPath (is_absolute root)
       (parts root @ [''opennexus'', ''bin''] @ parts (Path v) @ [fst target, snd target])"

text \<open>
  A plain segment is one non-empty name other than \<open>.\<close> without a separator: joining it
  to a path appends exactly one part.
\<close>

definition plain :: "string \<Rightarrow> bool" where
  "plain s = (s \<noteq> [] \<and> s \<noteq> ''.'' \<and> CHR ''/'' \<notin> set s)"

text \<open>Two paths resolve to the same canonical file: both resolve, and to equal paths.\<close>

definition resolves_to_same :: "world \<Rightarrow> path \<Rightarrow> path \<Rightarrow> bool" where
  "resolves_to_same w a b =
     (case resolve w a of Resolved c \<Rightarrow> resolve w b = Resolved c | ResolveRaises e \<Rightarrow> False)"

text \<open>
  The locator discovers the binary of the cargo directory when its three tests hold: it
  exists, it is a regular file, it is executable.
\<close>

definition cargo_candidate :: "world \<Rightarrow> bool" where
  "cargo_candidate w =
     (Path_exists w (cargo_binary w) = Inr True \<and> Path_is_file w (cargo_binary w) = Inr True
      \<and> os_access_X_OK w (cargo_binary w))"

text \<open>
  The HTTP status of a fetch, when it has one: that of the response, or the one that an
  \<^verbatim>\<open>HTTPError\<close> carries. \<^verbatim>\<open>urllib\<close> raises an \<^verbatim>\<open>HTTPError\<close> with the URL and the
  status for every status outside 200 to 299, instead of returning the response.
\<close>

definition fetch_status :: "reply \<Rightarrow> int option" where
  "fetch_status r =
     (case r of
        Response st data \<Rightarrow> Some st
      | Raises (HTTPError url st) \<Rightarrow> Some st
      | Raises e \<Rightarrow> None)"

text \<open>
  \<open>fs_frame w w' n\<close>: the world \<open>w'\<close> is \<open>w\<close> with another file system, which agrees
  with that of \<open>w\<close> on every path of more than \<open>n\<close> parts.
\<close>

definition fs_frame :: "world \<Rightarrow> world \<Rightarrow> nat \<Rightarrow> bool" where
  "fs_frame w w' n =
     (\<exists>f. w' = w\<lparr>fs := f\<rparr> \<and> (\<forall>q. n < length (parts q) \<longrightarrow> f q = fs w q))"

text \<open>
  A destination can be written when the operating system does not refuse it and it is a
  file, or it is missing from a directory. \<open>file_mode_after_write\<close> is the mode of the
  file that \<^verbatim>\<open>write_bytes\<close> leaves: the old mode of a file that was there, the mode of
  new files otherwise.
\<close>

definition writable :: "world \<Rightarrow> path \<Rightarrow> bool" where
  "writable w p =
     (\<not> denied w Write p \<and>
      (case lookup w p of
         Some Dir \<Rightarrow> False
       | Some (File c m) \<Rightarrow> True
       | None \<Rightarrow> is_dir w (parent p)))"

definition file_mode_after_write :: "world \<Rightarrow> path \<Rightarrow> nat" where
  "file_mode_after_write w p = (case fs w p of Some (File c m) \<Rightarrow> m | _ \<Rightarrow> new_file_mode w)"

subsection \<open>Example hosts\<close>

text \<open>
  A Linux host with an empty cache and no installed binary: the launcher was started as
  \<^verbatim>\<open>/usr/local/bin/opennexus --version\<close>; the release server answers the asset of
  version 0.1.5 for Linux on x86_64 with three bytes, and 404 for anything else. A file is
  executable when its owner may execute it.
\<close>

definition owner_may_execute :: "path \<Rightarrow> node \<Rightarrow> bool" where
  "owner_may_execute p n = (case n of File c m \<Rightarrow> m div 64 mod 2 = 1 | Dir \<Rightarrow> True)"

definition release_server :: "string \<Rightarrow> reply" where
  "release_server url =
     (if url = ''https://github.com/Alpha-Innovation-Labs/opennexus/releases/download/v0.1.5/opennexus-x86_64-unknown-linux-gnu''
      then Response 200 [127, 69, 76]
      else Raises (HTTPError url 404))"

definition linux_clean :: world where
  "linux_clean =
     \<lparr>argv = [''/usr/local/bin/opennexus'', ''--version''],
      environ = Map.empty,
      os_name = ''posix'',
      platform_system = ''Linux'',
      platform_machine = ''x86_64'',
      metadata_version = None,
      home = Path ''/home/u'',
      which = (\<lambda>name. None),
      resolve = (\<lambda>p. Resolved p),
      fs = [Path ''/home'' \<mapsto> Dir, Path ''/home/u'' \<mapsto> Dir],
      stat_error = (\<lambda>p. None),
      x_ok = owner_may_execute,
      denied = (\<lambda>c p. False),
      new_file_mode = 420,
      urlopen = release_server,
      requests = [],
      stderr = []\<rparr>"

text \<open>The path of the cached binary on that host.\<close>

definition linux_binary :: path where
  "linux_binary =
     Path ''/home/u/.cache/opennexus/bin/0.1.5/x86_64-unknown-linux-gnu/opennexus''"

text \<open>
  The same host with the binary already in the cache and no network: every request fails.
  The argument vector is another one, the cache root comes from \<^verbatim>\<open>XDG_CACHE_HOME\<close>
  and the version from the package metadata.
\<close>

definition linux_cached :: world where
  "linux_cached =
     linux_clean
       \<lparr>argv := [''opennexus'', ''run'', ''--fast''],
        environ := [''XDG_CACHE_HOME'' \<mapsto> ''/home/u/.cache''],
        metadata_version := Some ''0.1.5'',
        fs := [Path ''/home'' \<mapsto> Dir, Path ''/home/u'' \<mapsto> Dir,
               Path ''/home/u/.cache'' \<mapsto> Dir,
               Path ''/home/u/.cache/opennexus'' \<mapsto> Dir,
               Path ''/home/u/.cache/opennexus/bin'' \<mapsto> Dir,
               Path ''/home/u/.cache/opennexus/bin/0.1.5'' \<mapsto> Dir,
               Path ''/home/u/.cache/opennexus/bin/0.1.5/x86_64-unknown-linux-gnu'' \<mapsto> Dir,
               linux_binary \<mapsto> File [1, 2] 493],
        urlopen := (\<lambda>url. Raises (URLError ''unreachable''))\<rparr>"

text \<open>
  A host where the only \<^verbatim>\<open>opennexus\<close> to be found is the launcher: the cargo directory
  holds a link to it, and the command path finds the launcher itself.
\<close>

definition linux_self :: world where
  "linux_self =
     linux_clean
       \<lparr>which := (\<lambda>name. if name = ''opennexus'' then Some ''/usr/local/bin/opennexus'' else None),
        resolve := (\<lambda>p. if p = Path ''/home/u/.cargo/bin/opennexus''
                         then Resolved (Path ''/usr/local/bin/opennexus'') else Resolved p),
        fs := [Path ''/home'' \<mapsto> Dir, Path ''/home/u'' \<mapsto> Dir,
               Path ''/home/u/.cargo'' \<mapsto> Dir, Path ''/home/u/.cargo/bin'' \<mapsto> Dir,
               Path ''/home/u/.cargo/bin/opennexus'' \<mapsto> File [35, 33] 493,
               Path ''/usr/local/bin/opennexus'' \<mapsto> File [35, 33] 493]\<rparr>"

text \<open>
  A host where the launcher is all that the command path finds, and the cargo directory
  cannot be read: \<^verbatim>\<open>stat\<close> of the cargo binary is refused.
\<close>

definition linux_locked :: world where
  "linux_locked =
     linux_clean
       \<lparr>which := (\<lambda>name. if name = ''opennexus'' then Some ''/usr/local/bin/opennexus'' else None),
        fs := [Path ''/home'' \<mapsto> Dir, Path ''/home/u'' \<mapsto> Dir,
               Path ''/home/u/.cargo'' \<mapsto> Dir,
               Path ''/usr/local/bin/opennexus'' \<mapsto> File [35, 33] 493],
        stat_error := (\<lambda>p. if p = Path ''/home/u/.cargo/bin/opennexus''
                            then Some PermissionError else None)\<rparr>"

text \<open>A host with a real binary installed by cargo, beside the launcher.\<close>

definition linux_cargo :: world where
  "linux_cargo =
     linux_clean
       \<lparr>fs := [Path ''/home'' \<mapsto> Dir, Path ''/home/u'' \<mapsto> Dir,
               Path ''/home/u/.cargo'' \<mapsto> Dir, Path ''/home/u/.cargo/bin'' \<mapsto> Dir,
               Path ''/home/u/.cargo/bin/opennexus'' \<mapsto> File [127, 69] 493,
               Path ''/usr/local/bin/opennexus'' \<mapsto> File [35, 33] 493]\<rparr>"

text \<open>
  A Windows host whose \<^verbatim>\<open>LOCALAPPDATA\<close> and \<^verbatim>\<open>OPENNEXUS_RELEASE_BASE_URL\<close> are set
  and empty, and a Linux host whose \<^verbatim>\<open>XDG_CACHE_HOME\<close> is set and empty.
\<close>

definition windows_host :: world where
  "windows_host =
     linux_clean
       \<lparr>environ := [''LOCALAPPDATA'' \<mapsto> [], ''OPENNEXUS_RELEASE_BASE_URL'' \<mapsto> []],
        os_name := ''nt'',
        platform_system := ''Windows'',
        platform_machine := ''AMD64'',
        home := Path ''C:/Users/u'',
        fs := [Path ''C:'' \<mapsto> Dir, Path ''C:/Users'' \<mapsto> Dir, Path ''C:/Users/u'' \<mapsto> Dir],
        urlopen := (\<lambda>url. if url = ''/opennexus-x86_64-pc-windows-msvc.exe''
                            then Response 200 [77, 90] else Raises (HTTPError url 404))\<rparr>"

definition windows_binary :: path where
  "windows_binary =
     Path ''C:/Users/u/AppData/Local/opennexus/bin/0.1.5/x86_64-pc-windows-msvc/opennexus.exe''"

definition linux_empty_xdg :: world where
  "linux_empty_xdg = linux_clean\<lparr>environ := [''XDG_CACHE_HOME'' \<mapsto> []]\<rparr>"

text \<open>
  A host whose release base URL is overridden to a mirror that answers every request with
  204 and no content.
\<close>

definition mirror_host :: world where
  "mirror_host =
     linux_clean
       \<lparr>environ := [''OPENNEXUS_RELEASE_BASE_URL'' \<mapsto> ''http://mirror.test/v1''],
        urlopen := (\<lambda>url. Response 204 [])\<rparr>"

text \<open>
  A host whose package metadata gives a version that is a rooted path, and whose release
  server answers every request.
\<close>

definition rooted_version_host :: world where
  "rooted_version_host =
     linux_clean
       \<lparr>metadata_version := Some ''/home/u/v'',
        urlopen := (\<lambda>url. Response 200 [127, 69, 76])\<rparr>"

text \<open>A host that the table does not know.\<close>

definition freebsd_host :: world where
  "freebsd_host = linux_clean\<lparr>platform_system := ''FreeBSD'', platform_machine := ''amd64''\<rparr>"

section \<open>Properties\<close>

subsection \<open>Auxiliary facts\<close>

text \<open>The equations that evaluate the model on a given host.\<close>

lemmas model_defs =
  resolve_target_def platform_key_def targets_def lower_def lower_char_def
  unsupported_platform_def cache_root_def joinpath_def truediv_def Path_def parent_def
  VERSION_def RELEASE_BASE_URL_def default_release_url_def exists_def is_file_def is_dir_def
  lookup_def os_access_X_OK_def os_mkdir_def mkdir_exist_ok_def mkdir_parents.simps
  write_bytes_def chmod_def download_def download_failed_def str_int_def str_nat.simps
  asset_name_def asset_url_def endswith_def progress_notice_def mode_755_def install_dir_def
  binary_path_def ensure_managed_binary_def same_file_def cargo_binary_def
  locate_on_path_def Path_exists_def Path_is_file_def find_installed_binary_def main_def
  BinaryPath_def resolves_to_same_def cargo_candidate_def fetch_status_def
  owner_may_execute_def release_server_def writable_def file_mode_after_write_def

lemmas host_defs =
  linux_clean_def linux_binary_def linux_cached_def linux_self_def linux_cargo_def
  windows_host_def windows_binary_def linux_empty_xdg_def mirror_host_def freebsd_host_def
  linux_locked_def rooted_version_host_def

lemma resolve_target_lookup:
  "resolve_target w =
     (case targets (platform_key w) of
        None \<Rightarrow> Inl (unsupported_platform (fst (platform_key w)) (snd (platform_key w)))
      | Some target \<Rightarrow> Inr target)"
  by (cases "platform_key w") (simp add: resolve_target_def split: option.splits)

lemma resolve_target_Inr:
  "resolve_target w = Inr target \<longleftrightarrow> targets (platform_key w) = Some target"
  by (simp add: resolve_target_lookup split: option.splits)

lemma targets_range:
  assumes "targets k = Some target"
  shows "(k, target) \<in>
           {((''darwin'', ''arm64''), (''aarch64-apple-darwin'', ''opennexus'')),
            ((''darwin'', ''x86_64''), (''x86_64-apple-darwin'', ''opennexus'')),
            ((''linux'', ''x86_64''), (''x86_64-unknown-linux-gnu'', ''opennexus'')),
            ((''linux'', ''aarch64''), (''aarch64-unknown-linux-gnu'', ''opennexus'')),
            ((''windows'', ''amd64''), (''x86_64-pc-windows-msvc'', ''opennexus.exe''))}"
  using assms by (auto simp: targets_def split: if_splits)

lemma target_names_plain:
  assumes "targets k = Some target"
  shows "plain (fst target) \<and> plain (snd target)"
  using targets_range [OF assms] by (auto simp: plain_def)

lemma target_exe:
  assumes "targets k = Some target"
  shows "endswith (snd target) ''.exe'' \<longleftrightarrow> fst k = ''windows''"
  using targets_range [OF assms] by (auto simp: endswith_def)

lemma split_on_plain: "sep \<notin> set s \<Longrightarrow> split_on sep s = [s]"
  by (induction s) auto

lemma Path_plain: "plain s \<Longrightarrow> Path s = MkPath False [s]"
  by (cases s) (auto simp: plain_def Path_def split_on_plain)

lemma truediv_plain: "plain s \<Longrightarrow> truediv p s = MkPath (is_absolute p) (parts p @ [s])"
  by (simp add: truediv_def Path_plain)

lemma parent_truediv_plain: "plain s \<Longrightarrow> parent (truediv p s) = p"
  by (simp add: truediv_plain parent_def)

lemma os_mkdir_frame:
  assumes "os_mkdir w p = Inr w'"
  shows "w' = w\<lparr>fs := (fs w)(p \<mapsto> Dir)\<rparr>"
  using assms by (auto simp: os_mkdir_def split: if_splits option.splits node.splits)

lemma mkdir_exist_ok_frame:
  assumes "mkdir_exist_ok w p = (w', r)"
  shows "w' = w \<or> w' = w\<lparr>fs := (fs w)(p \<mapsto> Dir)\<rparr>"
  using assms
  by (auto simp: mkdir_exist_ok_def dest: os_mkdir_frame
           split: sum.splits os_error.splits if_splits)

lemma fs_frame_refl: "fs_frame w w n"
  unfolding fs_frame_def by (rule exI [of _ "fs w"]) simp

lemma fs_frame_upd:
  "length (parts p) \<le> n \<Longrightarrow> fs_frame w (w\<lparr>fs := (fs w)(p \<mapsto> Dir)\<rparr>) n"
  unfolding fs_frame_def by (rule exI [of _ "(fs w)(p \<mapsto> Dir)"]) auto

lemma fs_frame_trans:
  assumes "fs_frame w w1 m" "fs_frame w1 w2 n" "m \<le> n"
  shows "fs_frame w w2 n"
proof -
  from assms(1) obtain f
    where f: "w1 = w\<lparr>fs := f\<rparr>" "\<forall>q. m < length (parts q) \<longrightarrow> f q = fs w q"
    unfolding fs_frame_def by blast
  from assms(2) obtain g
    where g: "w2 = w1\<lparr>fs := g\<rparr>" "\<forall>q. n < length (parts q) \<longrightarrow> g q = fs w1 q"
    unfolding fs_frame_def by blast
  have "w2 = w\<lparr>fs := g\<rparr>" using f(1) g(1) by simp
  moreover have "\<forall>q. n < length (parts q) \<longrightarrow> g q = fs w q"
    using f g \<open>m \<le> n\<close> by simp
  ultimately show ?thesis unfolding fs_frame_def by blast
qed

text \<open>Making a directory that is there changes nothing.\<close>

lemma mkdir_parents_is_dir:
  assumes "is_dir w p"
  shows "mkdir_parents w p = (w, Inr ())"
  using assms by (simp add: mkdir_parents.simps os_mkdir_def is_dir_def)

text \<open>
  \<^verbatim>\<open>mkdir\<close> changes the file system only, and there only the directory and its
  ancestors: no path with more parts.
\<close>

lemma mkdir_parents_frame:
  "mkdir_parents w p = (w', r) \<Longrightarrow> fs_frame w w' (length (parts p))"
proof (induction w p arbitrary: w' r rule: mkdir_parents.induct)
  case (1 w p)
  show ?case
  proof (cases "os_mkdir w p")
    case (Inr w1)
    with "1.prems" have "w' = w1" by (simp add: mkdir_parents.simps)
    with os_mkdir_frame [OF Inr] show ?thesis by (simp add: fs_frame_upd)
  next
    case (Inl e)
    show ?thesis
    proof (cases "e = FileNotFoundError \<and> parent p \<noteq> p")
      case False
      with Inl "1.prems" have "w' = w"
        by (auto simp: mkdir_parents.simps split: os_error.splits if_splits)
      then show ?thesis by (simp add: fs_frame_refl)
    next
      case True
      obtain w1 r1 where rec: "mkdir_parents w (parent p) = (w1, r1)"
        by (cases "mkdir_parents w (parent p)")
      from True Inl have ih: "fs_frame w w1 (length (parts (parent p)))"
        using "1.IH" [OF Inl _ _ rec] by simp
      have len: "length (parts (parent p)) \<le> length (parts p)"
        by (simp add: parent_def)
      show ?thesis
      proof (cases r1)
        case (Inl e1)
        with True \<open>os_mkdir w p = Inl e\<close> rec "1.prems" have "w' = w1"
          by (simp add: mkdir_parents.simps)
        with fs_frame_trans [OF ih fs_frame_refl len] show ?thesis by simp
      next
        case (Inr u)
        with True \<open>os_mkdir w p = Inl e\<close> rec "1.prems"
        have "mkdir_exist_ok w1 p = (w', r)"
          by (simp add: mkdir_parents.simps)
        from mkdir_exist_ok_frame [OF this] have "fs_frame w1 w' (length (parts p))"
          by (auto simp: fs_frame_refl fs_frame_upd)
        from fs_frame_trans [OF ih this len] show ?thesis .
      qed
    qed
  qed
qed




lemma write_bytes_writable:
  assumes "writable w p"
  shows "write_bytes w p data =
           Inr (w\<lparr>fs := (fs w)(p \<mapsto> File data (file_mode_after_write w p))\<rparr>)"
  using assms
  by (auto simp: writable_def write_bytes_def file_mode_after_write_def lookup_def is_dir_def
           split: option.splits node.splits if_splits)

lemma write_bytes_not_writable:
  assumes "\<not> writable w p"
  shows "\<exists>e. write_bytes w p data = Inl e"
  using assms
  by (auto simp: writable_def write_bytes_def is_dir_def split: option.splits node.splits)

lemma write_bytes_Inr:
  assumes "write_bytes w p data = Inr w'"
  shows "writable w p \<and> w' = w\<lparr>fs := (fs w)(p \<mapsto> File data (file_mode_after_write w p))\<rparr>"
proof (cases "writable w p")
  case True
  from write_bytes_writable [OF this, of data] assms True show ?thesis by simp
next
  case False
  from write_bytes_not_writable [OF this, of data] assms show ?thesis by auto
qed

lemma writable_requests [simp]: "writable (w\<lparr>requests := r\<rparr>) p = writable w p"
  by (simp add: writable_def lookup_def is_dir_def split: option.splits node.splits)

lemma writable_stderr [simp]: "writable (w\<lparr>stderr := r\<rparr>) p = writable w p"
  by (simp add: writable_def lookup_def is_dir_def split: option.splits node.splits)

lemma file_mode_after_write_requests [simp]:
  "file_mode_after_write (w\<lparr>requests := r\<rparr>) p = file_mode_after_write w p"
  by (simp add: file_mode_after_write_def split: option.splits node.splits)

lemma file_mode_after_write_stderr [simp]:
  "file_mode_after_write (w\<lparr>stderr := r\<rparr>) p = file_mode_after_write w p"
  by (simp add: file_mode_after_write_def split: option.splits node.splits)

lemma download_requests: "requests (fst (download w url destination)) = requests w @ [url]"
  by (auto simp: download_def Let_def dest!: write_bytes_Inr split: reply.splits sum.splits)

lemma download_Inr:
  assumes "download w url p = (w', Inr u)"
  shows "\<exists>data. urlopen w url = Response 200 data \<and> writable w p
           \<and> w' = w\<lparr>requests := requests w @ [url],
                     fs := (fs w)(p \<mapsto> File data (file_mode_after_write w p))\<rparr>"
  using assms
  by (auto simp: download_def Let_def dest!: write_bytes_Inr split: reply.splits sum.splits if_splits)

lemma chmod_Inr:
  assumes "chmod w p m = Inr w'"
  shows "requests w' = requests w
         \<and> (\<forall>c m0. fs w p = Some (File c m0) \<and> parts p \<noteq> [] \<longrightarrow> fs w' p = Some (File c m))"
  using assms
  by (auto simp: chmod_def lookup_def split: option.splits if_splits node.splits)

lemma binary_path_parts:
  assumes "targets k = Some target"
  shows "parts (binary_path w target) = parts (install_dir w (fst target)) @ [snd target]"
    and "parent (binary_path w target) = install_dir w (fst target)"
  using target_names_plain [OF assms]
  by (simp_all add: binary_path_def truediv_plain parent_def)

lemma fs_frame_lookup:
  assumes "fs_frame w w1 n" "n < length (parts q)"
  shows "exists w1 q = exists w q" "os_access_X_OK w1 q = os_access_X_OK w q"
    "file_mode_after_write w1 q = file_mode_after_write w q"
    "requests w1 = requests w" "stderr w1 = stderr w" "urlopen w1 = urlopen w"
  using assms
  by (auto simp: fs_frame_def exists_def os_access_X_OK_def lookup_def file_mode_after_write_def
           split: option.splits node.splits)

lemma ensure_miss:
  assumes "resolve_target w = Inr target"
    and "\<not> (exists w (binary_path w target) \<and> os_access_X_OK w (binary_path w target))"
    and "mkdir_parents w (install_dir w (fst target)) = (w1, Inr ())"
  shows "ensure_managed_binary w =
     (case download (w1\<lparr>stderr := stderr w @ [progress_notice (VERSION w) (fst target)]\<rparr>)
             (asset_url w target) (binary_path w target) of
        (w3, Inl e) \<Rightarrow> (w3, Inl e)
      | (w3, Inr u) \<Rightarrow>
          if os_name w \<noteq> ''nt'' then
            (case chmod w3 (binary_path w target) mode_755 of
               Inl e \<Rightarrow> (w3, Inl (OSError e))
             | Inr w4 \<Rightarrow> (w4, Inr (binary_path w target)))
          else (w3, Inr (binary_path w target)))"
   and "fs_frame w w1 (length (parts (install_dir w (fst target))))"
proof -
  from assms(1) have t: "targets (platform_key w) = Some target"
    by (simp add: resolve_target_Inr)
  show fr: "fs_frame w w1 (length (parts (install_dir w (fst target))))"
    using mkdir_parents_frame [OF assms(3)] .
  have len: "length (parts (install_dir w (fst target))) < length (parts (binary_path w target))"
    by (simp add: binary_path_parts(1) [OF t])
  from fs_frame_lookup [OF fr len] assms(2)
  have miss: "(exists w1 (binary_path w target) \<and> os_access_X_OK w1 (binary_path w target)) = False"
    and st: "stderr w1 = stderr w"
    by simp_all
  show "ensure_managed_binary w =
     (case download (w1\<lparr>stderr := stderr w @ [progress_notice (VERSION w) (fst target)]\<rparr>)
             (asset_url w target) (binary_path w target) of
        (w3, Inl e) \<Rightarrow> (w3, Inl e)
      | (w3, Inr u) \<Rightarrow>
          if os_name w \<noteq> ''nt'' then
            (case chmod w3 (binary_path w target) mode_755 of
               Inl e \<Rightarrow> (w3, Inl (OSError e))
             | Inr w4 \<Rightarrow> (w4, Inr (binary_path w target)))
          else (w3, Inr (binary_path w target)))"
    using assms(1,3) st by (simp add: ensure_managed_binary_def Let_def miss)
qed

lemma asset_url_explicit:
  assumes "targets (platform_key w) = Some target"
  shows "asset_url w target =
           (case environ w ''OPENNEXUS_RELEASE_BASE_URL'' of
              Some u \<Rightarrow> u
            | None \<Rightarrow> ''https://github.com/Alpha-Innovation-Labs/opennexus/releases/download/v''
                        @ VERSION w)
           @ ''/opennexus-'' @ fst target
           @ (if fst (platform_key w) = ''windows'' then ''.exe'' else [])"
  using target_exe [OF assms]
  by (simp add: asset_url_def RELEASE_BASE_URL_def default_release_url_def asset_name_def
           split: option.splits)







lemma same_file_raises:
  "resolve w a = ResolveRaises (OSError x) \<Longrightarrow> same_file w a b = Inr False"
  "resolve w a = ResolveRaises (RuntimeError m) \<Longrightarrow> same_file w a b = Inl (RuntimeError m)"
  "resolve w a = Resolved c \<Longrightarrow> resolve w b = ResolveRaises (OSError x) \<Longrightarrow>
     same_file w a b = Inr False"
  "resolve w a = Resolved c \<Longrightarrow> resolve w b = ResolveRaises (RuntimeError m) \<Longrightarrow>
     same_file w a b = Inl (RuntimeError m)"
  by (simp_all add: same_file_def)


text \<open>The example hosts: their targets, their paths and their runs.\<close>

lemma linux_target:
  "resolve_target linux_clean = Inr (''x86_64-unknown-linux-gnu'', ''opennexus'')"
  "resolve_target linux_cached = Inr (''x86_64-unknown-linux-gnu'', ''opennexus'')"
  "resolve_target mirror_host = Inr (''x86_64-unknown-linux-gnu'', ''opennexus'')"
  by (simp_all add: host_defs resolve_target_def platform_key_def lower_def lower_char_def
        targets_def)

lemma windows_target:
  "resolve_target windows_host = Inr (''x86_64-pc-windows-msvc'', ''opennexus.exe'')"
  by (simp add: host_defs resolve_target_def platform_key_def lower_def lower_char_def
        targets_def)

lemma host_binary_path:
  "binary_path linux_clean (''x86_64-unknown-linux-gnu'', ''opennexus'') = linux_binary"
  "binary_path linux_cached (''x86_64-unknown-linux-gnu'', ''opennexus'') = linux_binary"
  "binary_path mirror_host (''x86_64-unknown-linux-gnu'', ''opennexus'') = linux_binary"
  "binary_path windows_host (''x86_64-pc-windows-msvc'', ''opennexus.exe'') = windows_binary"
  by (simp_all add: host_defs binary_path_def install_dir_def cache_root_def VERSION_def
        joinpath_def truediv_def Path_def)

lemma linux_clean_run:
  "snd (ensure_managed_binary linux_clean) = Inr linux_binary"
  by (simp add: host_defs model_defs)

lemma windows_host_run:
  "snd (ensure_managed_binary windows_host) = Inr windows_binary"
  by (simp add: host_defs model_defs)

subsection \<open>The target resolver\<close>

text \<open>
  Claim C2. The table of \<^verbatim>\<open>_resolve_target\<close> has an entry for macOS on Apple silicon and
  on Intel, for Linux on x86_64 and on arm64, and for Windows on x86_64; for each of these
  keys the resolver returns the target triple and the binary name of the entry, and for
  every other (system, machine) pair it fails with the unsupported-platform error, whose
  message carries the pair.
\<close>

theorem resolve_target_table:
  "(platform_key w = (''darwin'', ''arm64'') \<longrightarrow>
      resolve_target w = Inr (''aarch64-apple-darwin'', ''opennexus''))
   \<and> (platform_key w = (''darwin'', ''x86_64'') \<longrightarrow>
      resolve_target w = Inr (''x86_64-apple-darwin'', ''opennexus''))
   \<and> (platform_key w = (''linux'', ''x86_64'') \<longrightarrow>
      resolve_target w = Inr (''x86_64-unknown-linux-gnu'', ''opennexus''))
   \<and> (platform_key w = (''linux'', ''aarch64'') \<longrightarrow>
      resolve_target w = Inr (''aarch64-unknown-linux-gnu'', ''opennexus''))
   \<and> (platform_key w = (''windows'', ''amd64'') \<longrightarrow>
      resolve_target w = Inr (''x86_64-pc-windows-msvc'', ''opennexus.exe''))
   \<and> (platform_key w \<notin> {(''darwin'', ''arm64''), (''darwin'', ''x86_64''),
          (''linux'', ''x86_64''), (''linux'', ''aarch64''), (''windows'', ''amd64'')} \<longrightarrow>
      resolve_target w =
        Inl (RuntimeError (''Unsupported platform: '' @ fst (platform_key w) @ ''/''
                             @ snd (platform_key w))))"
  by (auto simp: resolve_target_lookup targets_def unsupported_platform_def)

theorem resolve_target_table_witness:
  "resolve_target linux_clean = Inr (''x86_64-unknown-linux-gnu'', ''opennexus'')
   \<and> resolve_target windows_host = Inr (''x86_64-pc-windows-msvc'', ''opennexus.exe'')
   \<and> resolve_target freebsd_host = Inl (RuntimeError ''Unsupported platform: freebsd/amd64'')"
  using resolve_target_table [of linux_clean] resolve_target_table [of windows_host]
    resolve_target_table [of freebsd_host]
  by (simp add: linux_clean_def windows_host_def freebsd_host_def platform_key_def lower_def
        lower_char_def)

subsection \<open>Unsupported platforms leave no trace\<close>

text \<open>
  Claim C9. On a (system, machine) pair that the table does not have,
  \<^verbatim>\<open>_ensure_managed_binary\<close> fails with the unsupported-platform error and leaves the
  world as it found it: no directory and no file is created, nothing is fetched and
  nothing is printed.
\<close>

theorem unsupported_platform_no_state:
  assumes "targets (platform_key w) = None"
  shows "ensure_managed_binary w =
           (w, Inl (RuntimeError (''Unsupported platform: '' @ fst (platform_key w) @ ''/''
                                    @ snd (platform_key w))))"
  using assms
  by (simp add: ensure_managed_binary_def resolve_target_lookup unsupported_platform_def)

theorem unsupported_platform_no_state_witness:
  "targets (platform_key freebsd_host) = None
   \<and> ensure_managed_binary freebsd_host =
       (freebsd_host, Inl (RuntimeError ''Unsupported platform: freebsd/amd64''))"
proof -
  have h: "targets (platform_key freebsd_host) = None"
    by (simp add: freebsd_host_def linux_clean_def platform_key_def lower_def lower_char_def
          targets_def)
  have k: "platform_key freebsd_host = (''freebsd'', ''amd64'')"
    by (simp add: freebsd_host_def linux_clean_def platform_key_def lower_def lower_char_def)
  show ?thesis using h unsupported_platform_no_state [OF h] by (simp add: k)
qed

subsection \<open>Empty environment variables\<close>

text \<open>
  Claim C10. An \<^verbatim>\<open>XDG_CACHE_HOME\<close> (off Windows) or a \<^verbatim>\<open>LOCALAPPDATA\<close> (on Windows)
  that is set to the empty string is treated as unset: the cache root is the fallback
  under the home directory, \<^verbatim>\<open>~/.cache\<close> or \<^verbatim>\<open>~/AppData/Local\<close>. An empty
  \<^verbatim>\<open>OPENNEXUS_RELEASE_BASE_URL\<close> is used as it is: the release base URL is the empty
  string, not the default, and the asset URL starts with the slash.
\<close>

theorem empty_environment_values:
  "(os_name w \<noteq> ''nt'' \<and> environ w ''XDG_CACHE_HOME'' = Some [] \<longrightarrow>
      cache_root w = joinpath (home w) [''.cache'']
      \<and> cache_root w = cache_root (w\<lparr>environ := (environ w)(''XDG_CACHE_HOME'' := None)\<rparr>))
   \<and> (os_name w = ''nt'' \<and> environ w ''LOCALAPPDATA'' = Some [] \<longrightarrow>
      cache_root w = joinpath (home w) [''AppData'', ''Local'']
      \<and> cache_root w = cache_root (w\<lparr>environ := (environ w)(''LOCALAPPDATA'' := None)\<rparr>))
   \<and> (environ w ''OPENNEXUS_RELEASE_BASE_URL'' = Some [] \<longrightarrow>
      RELEASE_BASE_URL w = []
      \<and> RELEASE_BASE_URL w \<noteq> default_release_url (VERSION w)
      \<and> asset_url w target = ''/'' @ asset_name (fst target) (snd target))"
  by (simp add: cache_root_def RELEASE_BASE_URL_def default_release_url_def asset_url_def)

theorem empty_environment_values_witness:
  "cache_root linux_empty_xdg = Path ''/home/u/.cache''
   \<and> cache_root windows_host = Path ''C:/Users/u/AppData/Local''
   \<and> RELEASE_BASE_URL windows_host = []
   \<and> asset_url windows_host (''x86_64-pc-windows-msvc'', ''opennexus.exe'')
        = ''/opennexus-x86_64-pc-windows-msvc.exe''"
  using empty_environment_values [of linux_empty_xdg]
    empty_environment_values [of windows_host "(''x86_64-pc-windows-msvc'', ''opennexus.exe'')"]
  by (simp add: linux_empty_xdg_def windows_host_def linux_clean_def joinpath_def truediv_def
        Path_def asset_name_def endswith_def)

subsection \<open>The binary locator\<close>




subsection \<open>The downloader\<close>




subsection \<open>The launcher\<close>

text \<open>
  Claim C6. \<^verbatim>\<open>main\<close> ends in a call of \<^verbatim>\<open>os.execv\<close> exactly when a binary was
  resolved, by the locator or else by the provisioner; the call is made on that binary,
  and its argument vector is \<^verbatim>\<open>"opennexus"\<close> followed by \<^verbatim>\<open>sys.argv[1:]\<close> as it is.
\<close>

theorem main_forwards_arguments:
  "snd (main w) = Inr x \<longleftrightarrow>
     (\<exists>b. x = Execv b (''opennexus'' # drop 1 (argv w))
          \<and> (find_installed_binary w = Inr (Some b)
               \<or> find_installed_binary w = Inr None \<and> snd (ensure_managed_binary w) = Inr b))"
  by (cases "ensure_managed_binary w")
     (auto simp: main_def Let_def split: sum.splits option.splits)

theorem main_forwards_arguments_witness:
  "snd (main linux_clean) = Inr (Execv linux_binary [''opennexus'', ''--version''])
   \<and> snd (main linux_cargo) =
       Inr (Execv (Path ''/home/u/.cargo/bin/opennexus'') [''opennexus'', ''--version''])"
proof -
  have a: "find_installed_binary linux_clean = Inr None"
    by (simp add: linux_clean_def model_defs)
  have b: "snd (ensure_managed_binary linux_clean) = Inr linux_binary"
    by (simp add: linux_clean_def linux_binary_def model_defs)
  have c: "drop 1 (argv linux_clean) = [''--version'']"
    by (simp add: linux_clean_def)
  have g: "find_installed_binary linux_cargo =
             Inr (Some (Path ''/home/u/.cargo/bin/opennexus''))"
    by (simp add: linux_cargo_def linux_clean_def model_defs)
  have d: "drop 1 (argv linux_cargo) = [''--version'']"
    by (simp add: linux_cargo_def linux_clean_def)
  show ?thesis
    using main_forwards_arguments
            [of linux_clean "Execv linux_binary [''opennexus'', ''--version'']"]
          main_forwards_arguments
            [of linux_cargo "Execv (Path ''/home/u/.cargo/bin/opennexus'')
                               [''opennexus'', ''--version'']"]
          a b c d g
    by simp
qed

subsection \<open>The provisioner\<close>




text \<open>
  Claim C4. When the platform is supported and the path of the binary exists and is
  executable, in a file system where the directory that holds it is a directory,
  \<^verbatim>\<open>_ensure_managed_binary\<close> returns that path and leaves the world as it is: nothing
  is fetched, and no file changes its contents or its mode.
\<close>

theorem cache_hit_idempotent:
  assumes "resolve_target w = Inr target"
    and "exists w (binary_path w target)"
    and "os_access_X_OK w (binary_path w target)"
    and "is_dir w (parent (binary_path w target))"
  shows "ensure_managed_binary w = (w, Inr (binary_path w target))"
proof -
  from assms(1) have t: "targets (platform_key w) = Some target"
    by (simp add: resolve_target_Inr)
  from assms(4) have "is_dir w (install_dir w (fst target))"
    by (simp add: binary_path_parts(2) [OF t])
  then have "mkdir_parents w (install_dir w (fst target)) = (w, Inr ())"
    by (rule mkdir_parents_is_dir)
  with assms(1-3) show ?thesis
    by (simp add: ensure_managed_binary_def)
qed


theorem cache_hit_idempotent_witness:
  "ensure_managed_binary linux_cached = (linux_cached, Inr linux_binary)
   \<and> exists linux_cached linux_binary \<and> os_access_X_OK linux_cached linux_binary
   \<and> is_dir linux_cached (parent linux_binary)"
proof -
  let ?t = "(''x86_64-unknown-linux-gnu'', ''opennexus'')"
  have a: "exists linux_cached (binary_path linux_cached ?t)"
    and b: "os_access_X_OK linux_cached (binary_path linux_cached ?t)"
    and c: "is_dir linux_cached (parent (binary_path linux_cached ?t))"
    unfolding host_binary_path
    by (simp_all add: host_defs exists_def os_access_X_OK_def is_dir_def lookup_def parent_def
          Path_def owner_may_execute_def)
  from cache_hit_idempotent [OF linux_target(2) a b c] a b c show ?thesis
    by (simp add: host_binary_path)
qed

text \<open>
  Claim C7. On a cache miss, once the install directory is there, the provisioner fetches
  exactly one URL: the release base URL, which is the value of
  \<^verbatim>\<open>OPENNEXUS_RELEASE_BASE_URL\<close> when it is set and the release URL of the version
  otherwise, followed by \<^verbatim>\<open>/opennexus-\<close> and the target triple, and by \<^verbatim>\<open>.exe\<close>
  exactly when the system is Windows.
\<close>

theorem asset_url_on_cache_miss:
  assumes "resolve_target w = Inr target"
    and "snd (mkdir_parents w (install_dir w (fst target))) = Inr ()"
    and "\<not> (exists w (binary_path w target) \<and> os_access_X_OK w (binary_path w target))"
  shows "requests (fst (ensure_managed_binary w)) =
           requests w @
             [(case environ w ''OPENNEXUS_RELEASE_BASE_URL'' of
                 Some u \<Rightarrow> u
               | None \<Rightarrow> ''https://github.com/Alpha-Innovation-Labs/opennexus/releases/download/v''
                           @ VERSION w)
              @ ''/opennexus-'' @ fst target
              @ (if fst (platform_key w) = ''windows'' then ''.exe'' else [])]"
proof -
  from assms(1) have t: "targets (platform_key w) = Some target"
    by (simp add: resolve_target_Inr)
  obtain w1 where mk: "mkdir_parents w (install_dir w (fst target)) = (w1, Inr ())"
    using assms(2) by (cases "mkdir_parents w (install_dir w (fst target))") auto
  let ?w2 = "w1\<lparr>stderr := stderr w @ [progress_notice (VERSION w) (fst target)]\<rparr>"
  let ?url = "asset_url w target"
  let ?bp = "binary_path w target"
  note e = ensure_miss [OF assms(1) assms(3) mk]
  have len: "length (parts (install_dir w (fst target))) < length (parts ?bp)"
    by (simp add: binary_path_parts(1) [OF t])
  have r1: "requests w1 = requests w"
    using fs_frame_lookup(4) [OF e(2) len] .
  obtain w3 r3 where d: "download ?w2 ?url ?bp = (w3, r3)"
    by (cases "download ?w2 ?url ?bp")
  from download_requests [of ?w2 ?url ?bp] d r1
  have r3: "requests w3 = requests w @ [?url]" by simp
  have "requests (fst (ensure_managed_binary w)) = requests w @ [?url]"
    using e(1) d r3
    by (auto simp: dest!: chmod_Inr split: sum.splits)
  then show ?thesis by (simp add: asset_url_explicit [OF t])
qed


theorem asset_url_on_cache_miss_witness:
  "requests (fst (ensure_managed_binary linux_clean)) =
     [''https://github.com/Alpha-Innovation-Labs/opennexus/releases/download/v0.1.5/opennexus-x86_64-unknown-linux-gnu'']
   \<and> requests (fst (ensure_managed_binary mirror_host)) =
     [''http://mirror.test/v1/opennexus-x86_64-unknown-linux-gnu'']
   \<and> requests (fst (ensure_managed_binary windows_host)) =
     [''/opennexus-x86_64-pc-windows-msvc.exe'']"
proof -
  let ?l = "(''x86_64-unknown-linux-gnu'', ''opennexus'')"
  let ?w = "(''x86_64-pc-windows-msvc'', ''opennexus.exe'')"
  have m1: "snd (mkdir_parents linux_clean (install_dir linux_clean (fst ?l))) = Inr ()"
    by (simp add: host_defs model_defs)
  have m2: "snd (mkdir_parents mirror_host (install_dir mirror_host (fst ?l))) = Inr ()"
    by (simp add: host_defs model_defs)
  have m3: "snd (mkdir_parents windows_host (install_dir windows_host (fst ?w))) = Inr ()"
    by (simp add: host_defs model_defs)
  have n1: "\<not> (exists linux_clean (binary_path linux_clean ?l)
               \<and> os_access_X_OK linux_clean (binary_path linux_clean ?l))"
    unfolding host_binary_path
    by (simp add: host_defs exists_def lookup_def Path_def)
  have n2: "\<not> (exists mirror_host (binary_path mirror_host ?l)
               \<and> os_access_X_OK mirror_host (binary_path mirror_host ?l))"
    unfolding host_binary_path
    by (simp add: host_defs exists_def lookup_def Path_def)
  have n3: "\<not> (exists windows_host (binary_path windows_host ?w)
               \<and> os_access_X_OK windows_host (binary_path windows_host ?w))"
    unfolding host_binary_path
    by (simp add: host_defs exists_def lookup_def Path_def)
  have k: "fst (platform_key linux_clean) = ''linux''" "fst (platform_key mirror_host) = ''linux''"
      "fst (platform_key windows_host) = ''windows''"
    by (simp_all add: host_defs platform_key_def lower_def lower_char_def)
  have e: "environ linux_clean ''OPENNEXUS_RELEASE_BASE_URL'' = None"
      "environ mirror_host ''OPENNEXUS_RELEASE_BASE_URL'' = Some ''http://mirror.test/v1''"
      "environ windows_host ''OPENNEXUS_RELEASE_BASE_URL'' = Some []"
      "VERSION linux_clean = ''0.1.5''"
      "requests linux_clean = []" "requests mirror_host = []" "requests windows_host = []"
    by (simp_all add: host_defs VERSION_def)
  from asset_url_on_cache_miss [OF linux_target(1) m1 n1]
       asset_url_on_cache_miss [OF linux_target(3) m2 n2]
       asset_url_on_cache_miss [OF windows_target m3 n3]
  show ?thesis by (simp add: k e)
qed

text \<open>
  Claim C8. When \<^verbatim>\<open>_ensure_managed_binary\<close> returns after a cache miss, the server
  answered the asset URL with status 200, and the returned path holds a file with the
  bytes of that answer. Off Windows its mode is 0755 (493); on Windows no mode is set: the
  file has the mode that the write left, its old one if it was there and that of a new file
  if not.
\<close>

theorem permissions_after_download:
  assumes "resolve_target w = Inr target"
    and "\<not> (exists w (binary_path w target) \<and> os_access_X_OK w (binary_path w target))"
    and "ensure_managed_binary w = (w', Inr p)"
  shows "p = binary_path w target
     \<and> (\<exists>data. urlopen w (asset_url w target) = Response 200 data
           \<and> fs w' p = Some (File data (if os_name w \<noteq> ''nt'' then 493
                                         else file_mode_after_write w p)))"
proof -
  from assms(1) have t: "targets (platform_key w) = Some target"
    by (simp add: resolve_target_Inr)
  let ?d = "install_dir w (fst target)"
  let ?url = "asset_url w target"
  let ?bp = "binary_path w target"
  obtain w1 r1 where mk0: "mkdir_parents w ?d = (w1, r1)"
    by (cases "mkdir_parents w ?d")
  with assms(1,3) have "r1 = Inr ()"
    by (cases r1) (auto simp: ensure_managed_binary_def)
  with mk0 have mk: "mkdir_parents w ?d = (w1, Inr ())" by simp
  let ?w2 = "w1\<lparr>stderr := stderr w @ [progress_notice (VERSION w) (fst target)]\<rparr>"
  note e = ensure_miss [OF assms(1) assms(2) mk]
  have len: "length (parts ?d) < length (parts ?bp)"
    by (simp add: binary_path_parts(1) [OF t])
  have ne: "parts ?bp \<noteq> []"
    by (simp add: binary_path_parts(1) [OF t])
  note fr = fs_frame_lookup [OF e(2) len]
  obtain w3 r3 where d: "download ?w2 ?url ?bp = (w3, r3)"
    by (cases "download ?w2 ?url ?bp")
  with e(1) assms(3) have "r3 = Inr ()"
    by (cases r3) auto
  with d have d': "download ?w2 ?url ?bp = (w3, Inr ())" by simp
  from download_Inr [OF d'] obtain data
    where u: "urlopen ?w2 ?url = Response 200 data"
      and w3: "w3 = ?w2\<lparr>requests := requests ?w2 @ [?url],
                 fs := (fs ?w2)(?bp \<mapsto> File data (file_mode_after_write ?w2 ?bp))\<rparr>"
    by blast
  from u fr(6) have u': "urlopen w ?url = Response 200 data" by simp
  from w3 fr(3) have f3: "fs w3 ?bp = Some (File data (file_mode_after_write w ?bp))"
    by simp
  show ?thesis
  proof (cases "os_name w = ''nt''")
    case True
    with e(1) d' assms(3) have "w' = w3" "p = ?bp" by simp_all
    with f3 u' True show ?thesis by auto
  next
    case False
    with e(1) d' assms(3) obtain w4 where c: "chmod w3 ?bp mode_755 = Inr w4"
      and "w' = w4" "p = ?bp"
      by (auto split: sum.splits)
    from chmod_Inr [OF c] f3 ne have "fs w4 ?bp = Some (File data mode_755)" by blast
    with \<open>w' = w4\<close> \<open>p = ?bp\<close> u' False show ?thesis by (auto simp: mode_755_def)
  qed
qed

theorem permissions_after_download_witness:
  "fs (fst (ensure_managed_binary linux_clean)) linux_binary = Some (File [127, 69, 76] 493)
   \<and> fs (fst (ensure_managed_binary windows_host)) windows_binary = Some (File [77, 90] 420)"
proof -
  let ?l = "(''x86_64-unknown-linux-gnu'', ''opennexus'')"
  let ?w = "(''x86_64-pc-windows-msvc'', ''opennexus.exe'')"
  have n1: "\<not> (exists linux_clean (binary_path linux_clean ?l)
               \<and> os_access_X_OK linux_clean (binary_path linux_clean ?l))"
    unfolding host_binary_path
    by (simp add: host_defs exists_def lookup_def Path_def)
  have n3: "\<not> (exists windows_host (binary_path windows_host ?w)
               \<and> os_access_X_OK windows_host (binary_path windows_host ?w))"
    unfolding host_binary_path
    by (simp add: host_defs exists_def lookup_def Path_def)
  have 1: "ensure_managed_binary linux_clean =
             (fst (ensure_managed_binary linux_clean), Inr linux_binary)"
    using linux_clean_run by (simp add: prod_eq_iff)
  have 2: "ensure_managed_binary windows_host =
             (fst (ensure_managed_binary windows_host), Inr windows_binary)"
    using windows_host_run by (simp add: prod_eq_iff)
  have u: "urlopen linux_clean (asset_url linux_clean ?l) = Response 200 [127, 69, 76]"
      "urlopen windows_host (asset_url windows_host ?w) = Response 200 [77, 90]"
    by (simp_all add: host_defs model_defs)
  have o: "os_name linux_clean \<noteq> ''nt''" "os_name windows_host = ''nt''"
      "file_mode_after_write windows_host windows_binary = 420"
    by (simp_all add: host_defs file_mode_after_write_def Path_def)
  from permissions_after_download [OF linux_target(1) n1 1]
       permissions_after_download [OF windows_target n3 2]
  show ?thesis by (simp add: u o)
qed

end
